theory Spec2Isabelle
  imports Complex_Main "HOL-Library.Product_Lexorder"
begin

section \<open>Python dictionaries\<close>

text \<open>
  A Python \<^verbatim>\<open>dict\<close> keeps its keys in insertion order, and several functions of
  \<^verbatim>\<open>app.py\<close> depend on that order (\<^verbatim>\<open>next(iter(d))\<close>, \<^verbatim>\<open>d.items()\<close>). A dict is
  therefore an association list in insertion order; \<^verbatim>\<open>d.get(k)\<close> and \<^verbatim>\<open>k in d\<close>
  are \<open>map_of\<close>.
\<close>

text \<open>\<^verbatim>\<open>d[k] = v\<close>: an existing key keeps its position, a new key goes to the end.\<close>

fun dict_set :: "('k \<times> 'v) list \<Rightarrow> 'k \<Rightarrow> 'v \<Rightarrow> ('k \<times> 'v) list" where
  "dict_set [] k v = [(k, v)]"
| "dict_set ((k', v') # d) k v =
     (if k' = k then (k, v) # d else (k', v') # dict_set d k v)"

section \<open>Translation helpers\<close>

text \<open>
  \<^verbatim>\<open>translation_cache\<close> is a global dict keyed by \<^verbatim>\<open>(text, lang)\<close>.
  The translation provider (\<^verbatim>\<open>GoogleTranslator(...).translate\<close>) is outside the
  program: a call either returns a string, raises an exception, or does not answer
  within the three seconds \<^verbatim>\<open>future.result(timeout=3)\<close> waits. The provider may
  answer differently from one call to the next, so it is indexed by the number of calls
  dispatched before.
\<close>

type_synonym cache_key = "string \<times> string"
type_synonym translation_cache = "(cache_key \<times> string) list"

datatype provider_result = Translated string | ProviderError | NoAnswerInTime

type_synonym provider = "nat \<Rightarrow> string \<Rightarrow> string \<Rightarrow> provider_result"

text \<open>
  The state the translation functions touch: the cache, and the log of the calls
  dispatched to the provider (text and target language), which the source does not keep
  but which makes "no provider call" a statement about the state.
\<close>

record tstate =
  cache :: translation_cache
  calls :: "cache_key list"

text \<open>What \<^verbatim>\<open>future.result(timeout=3)\<close> gives: the worker's return value, or a timeout.\<close>

datatype future_result = Returned string | TimeoutError

text \<open>
  The worker \<^verbatim>\<open>do_translate\<close>: an exception of the provider is caught inside the worker,
  which then returns \<^verbatim>\<open>text\<close> as its ordinary result.
\<close>

definition do_translate :: "provider \<Rightarrow> nat \<Rightarrow> string \<Rightarrow> string \<Rightarrow> future_result" where
  "do_translate prov n lang text =
     (case prov n lang text of
        Translated t \<Rightarrow> Returned t
      | ProviderError \<Rightarrow> Returned text
      | NoAnswerInTime \<Rightarrow> TimeoutError)"

text \<open>
  \<^verbatim>\<open>translate_text(text)\<close>. The argument \<open>language\<close> is the session's \<^verbatim>\<open>"language"\<close>
  entry (\<^verbatim>\<open>session.get("language", "en")\<close>). The result is the returned string and
  the state after the call.
\<close>

definition translate_text :: "provider \<Rightarrow> string option \<Rightarrow> string \<Rightarrow> tstate \<Rightarrow> string \<times> tstate" where
  "translate_text prov language text st =
     (if text = [] then (text, st)
      else
        let lang = (case language of None \<Rightarrow> ''en'' | Some l \<Rightarrow> l) in
        if lang = ''en'' then (text, st)
        else
          let key = (text, lang) in
          case map_of (cache st) key of
            Some t \<Rightarrow> (t, st)
          | None \<Rightarrow>
              let st' = st\<lparr>calls := calls st @ [key]\<rparr> in
              (case do_translate prov (length (calls st)) lang text of
                 Returned translated \<Rightarrow>
                   (translated, st'\<lparr>cache := dict_set (cache st') key translated\<rparr>)
               | TimeoutError \<Rightarrow> (text, st')))"





section \<open>The question flow\<close>

text \<open>
  A question of a conversation flow is a dict with the keys \<^verbatim>\<open>id\<close>, \<^verbatim>\<open>question\<close>,
  \<^verbatim>\<open>type\<close>, \<^verbatim>\<open>options\<close> (a list of dicts with \<^verbatim>\<open>value\<close> and \<^verbatim>\<open>text\<close>) and, for some
  questions, \<^verbatim>\<open>depends_on\<close> (a dict from question id to the required answer).
\<close>

record question =
  q_id :: string
  q_question :: string
  q_type :: string
  q_options :: "(string \<times> string) list"
  q_depends_on :: "(string \<times> string) list option"

text \<open>
  An answer is a single token, or a list of tokens for a multiple-choice question.
  The answers collected so far are a dict from question id to answer.
\<close>

datatype answer = Single string | Multiple "string list"

type_synonym answers = "(string \<times> answer) list"

text \<open>The flows that \<^verbatim>\<open>create_conversation_flows\<close> returns, one per department.\<close>

definition gastrointestinal_flow :: "question list" where
"gastrointestinal_flow = [
  \<lparr>q_id = ''symptom_location'',
    q_question = ''Where is your abdominal discomfort primarily located?'',
    q_type = ''single_choice'',
    q_options =
      [(''upper_abdomen'', ''Upper Abdomen (below chest)''),
       (''lower_abdomen'', ''Lower Abdomen (below belly button)''),
       (''whole_abdomen'', ''Whole Abdomen''),
       (''right_side'', ''Right Side''),
       (''left_side'', ''Left Side''),
       (''none'', ''No specific location'')],
    q_depends_on = None\<rparr>,
  \<lparr>q_id = ''upper_abdomen_timing'',
    q_question = ''When does your upper abdominal pain occur?'',
    q_type = ''single_choice'',
    q_options =
      [(''after_meals'', ''After Eating''),
       (''empty_stomach'', ''On Empty Stomach''),
       (''constant'', ''Constant Pain''),
       (''night_time'', ''At Night''),
       (''none'', ''No specific timing'')],
    q_depends_on = Some [(''symptom_location'', ''upper_abdomen'')]\<rparr>,
  \<lparr>q_id = ''pain_character'',
    q_question = ''What best describes the character of your pain?'',
    q_type = ''single_choice'',
    q_options =
      [(''burning'', ''Burning Sensation''),
       (''cramping'', ''Cramping Pain''),
       (''sharp'', ''Sharp/Stabbing Pain''),
       (''dull'', ''Dull Ache''),
       (''none'', ''No specific character'')],
    q_depends_on = None\<rparr>,
  \<lparr>q_id = ''digestive_symptoms'',
    q_question = ''Do you experience any of these digestive symptoms?'',
    q_type = ''multiple_choice'',
    q_options =
      [(''heartburn'', ''Heartburn/Acidity''),
       (''bloating'', ''Bloating''),
       (''belching'', ''Excessive Belching''),
       (''nausea'', ''Nausea''),
       (''vomiting'', ''Vomiting''),
       (''loss_of_appetite'', ''Loss of Appetite''),
       (''none'', ''None of these'')],
    q_depends_on = None\<rparr>,
  \<lparr>q_id = ''bowel_changes'',
    q_question = ''Any changes in your bowel movements?'',
    q_type = ''multiple_choice'',
    q_options =
      [(''constipation'', ''Constipation''),
       (''diarrhea'', ''Diarrhea''),
       (''alternating'', ''Alternating Constipation/Diarrhea''),
       (''bloody_stools'', ''Blood in Stool''),
       (''mucus_stools'', ''Mucus in Stool''),
       (''straining'', ''Straining during Bowel Movement''),
       (''urgency'', ''Urgent Need for Bowel Movement''),
       (''none'', ''No bowel changes'')],
    q_depends_on = None\<rparr>,
  \<lparr>q_id = ''systemic_symptoms'',
    q_question = ''Are you experiencing any of these general symptoms?'',
    q_type = ''multiple_choice'',
    q_options =
      [(''fever'', ''Fever''),
       (''jaundice'', ''Yellowing of Skin/Eyes (Jaundice)''),
       (''painful_bowel_movement'', ''Painful Bowel Movements''),
       (''none'', ''None of these'')],
    q_depends_on = None\<rparr>]"

definition dermatology_flow :: "question list" where
"dermatology_flow = [
  \<lparr>q_id = ''skin_condition_type'',
    q_question = ''What type of skin condition are you experiencing?'',
    q_type = ''single_choice'',
    q_options =
      [(''rash_bumps'', ''Rash or Bumps''),
       (''dry_patches'', ''Dry/Scaly Patches''),
       (''oily_skin'', ''Oily Skin with Pimples''),
       (''color_changes'', ''Skin Color Changes''),
       (''blisters'', ''Blisters or Sores''),
       (''none'', ''Not Sure'')],
    q_depends_on = None\<rparr>,
  \<lparr>q_id = ''skin_location'',
    q_question = ''Where is the skin condition located?'',
    q_type = ''multiple_choice'',
    q_options =
      [(''face'', ''Face''),
       (''scalp'', ''Scalp''),
       (''arms'', ''Arms''),
       (''legs'', ''Legs''),
       (''chest_back'', ''Chest or Back''),
       (''all_over_body'', ''All Over Body''),
       (''none'', ''No Specific Location'')],
    q_depends_on = None\<rparr>,
  \<lparr>q_id = ''sensation'',
    q_question = ''What sensation do you feel on the affected skin?'',
    q_type = ''multiple_choice'',
    q_options =
      [(''itchy'', ''Itchy''),
       (''burning'', ''Burning''),
       (''painful'', ''Painful''),
       (''tender'', ''Tender to Touch''),
       (''no_sensation'', ''No Sensation''),
       (''none'', ''None of These'')],
    q_depends_on = None\<rparr>,
  \<lparr>q_id = ''severity'',
    q_question = ''How severe is the itching or discomfort?'',
    q_type = ''single_choice'',
    q_options =
      [(''mild'', ''Mild (barely noticeable)''),
       (''moderate'', ''Moderate (annoying but manageable)''),
       (''severe'', ''Severe (interferes with daily activities)''),
       (''none'', ''No Itching/Discomfort'')],
    q_depends_on = None\<rparr>,
  \<lparr>q_id = ''duration'',
    q_question = ''How long have you had this skin condition?'',
    q_type = ''single_choice'',
    q_options =
      [(''recent'', ''Recent (less than 1 week)''),
       (''chronic'', ''Chronic (more than 1 month)''),
       (''recurring'', ''Comes and Goes''),
       (''none'', ''Not Sure'')],
    q_depends_on = None\<rparr>,
  \<lparr>q_id = ''triggers'',
    q_question = ''Do you notice any triggers that make it worse?'',
    q_type = ''multiple_choice'',
    q_options =
      [(''food'', ''Certain Foods''),
       (''weather'', ''Weather Changes''),
       (''cosmetics'', ''Cosmetics or Soaps''),
       (''stress'', ''Stress''),
       (''medications'', ''Medications''),
       (''none'', ''No Known Triggers'')],
    q_depends_on = None\<rparr>,
  \<lparr>q_id = ''other_symptoms'',
    q_question = ''Are you experiencing any other symptoms?'',
    q_type = ''multiple_choice'',
    q_options =
      [(''swelling'', ''Swelling''),
       (''pus'', ''Pus or Discharge''),
       (''hair_loss'', ''Hair Loss''),
       (''nail_changes'', ''Nail Changes''),
       (''fever'', ''Fever''),
       (''none'', ''None of These'')],
    q_depends_on = None\<rparr>]"

definition musculoskeletal_flow :: "question list" where
"musculoskeletal_flow = [
  \<lparr>q_id = ''pain_location'',
    q_question = ''Where is your pain primarily located?'',
    q_type = ''multiple_choice'',
    q_options =
      [(''neck'', ''Neck''),
       (''shoulder'', ''Shoulder''),
       (''upper_back'', ''Upper Back''),
       (''lower_back'', ''Lower Back''),
       (''hip'', ''Hip''),
       (''knee'', ''Knee''),
       (''elbow'', ''Elbow''),
       (''wrist'', ''Wrist''),
       (''ankle'', ''Ankle''),
       (''multiple_joints'', ''Multiple Joints''),
       (''none'', ''No Specific Location'')],
    q_depends_on = None\<rparr>,
  \<lparr>q_id = ''pain_type'',
    q_question = ''What type of pain are you experiencing?'',
    q_type = ''single_choice'',
    q_options =
      [(''sharp_shooting'', ''Sharp/Shooting Pain''),
       (''dull_ache'', ''Dull Ache''),
       (''burning'', ''Burning Sensation''),
       (''throbbing'', ''Throbbing Pain''),
       (''stabbing'', ''Stabbing Pain''),
       (''none'', ''No Specific Type'')],
    q_depends_on = None\<rparr>,
  \<lparr>q_id = ''pain_timing'',
    q_question = ''When does the pain occur or worsen?'',
    q_type = ''multiple_choice'',
    q_options =
      [(''morning'', ''Morning Stiffness''),
       (''activity'', ''During Activity''),
       (''rest'', ''During Rest''),
       (''night'', ''At Night''),
       (''constant'', ''Constant Pain''),
       (''none'', ''No Specific Timing'')],
    q_depends_on = None\<rparr>,
  \<lparr>q_id = ''mobility_issues'',
    q_question = ''What mobility issues are you experiencing?'',
    q_type = ''multiple_choice'',
    q_options =
      [(''difficulty_moving'', ''Difficulty Moving''),
       (''stiffness'', ''Stiffness''),
       (''limited_range'', ''Limited Range of Motion''),
       (''weakness'', ''Weakness''),
       (''giving_way'', ''Joint Giving Way''),
       (''none'', ''No Mobility Issues'')],
    q_depends_on = None\<rparr>,
  \<lparr>q_id = ''swelling_inflammation'',
    q_question = ''Do you have any signs of inflammation?'',
    q_type = ''multiple_choice'',
    q_options =
      [(''swelling'', ''Swelling''),
       (''redness'', ''Redness''),
       (''warmth'', ''Warmth to Touch''),
       (''tenderness'', ''Tenderness''),
       (''none'', ''No Inflammation Signs'')],
    q_depends_on = None\<rparr>,
  \<lparr>q_id = ''injury_cause'',
    q_question = ''Was this caused by an injury or specific activity?'',
    q_type = ''single_choice'',
    q_options =
      [(''recent_injury'', ''Recent Injury''),
       (''overuse'', ''Overuse/Repetitive Motion''),
       (''sports'', ''Sports Injury''),
       (''fall'', ''Fall or Accident''),
       (''none'', ''No Specific Cause'')],
    q_depends_on = None\<rparr>,
  \<lparr>q_id = ''duration'',
    q_question = ''How long have you had these symptoms?'',
    q_type = ''single_choice'',
    q_options =
      [(''acute'', ''Recent (less than 1 week)''),
       (''subacute'', ''Few Weeks (1-4 weeks)''),
       (''chronic'', ''Chronic (more than 3 months)''),
       (''recurring'', ''Comes and Goes''),
       (''none'', ''Not Sure'')],
    q_depends_on = None\<rparr>,
  \<lparr>q_id = ''other_symptoms'',
    q_question = ''Are you experiencing any other symptoms?'',
    q_type = ''multiple_choice'',
    q_options =
      [(''numbness'', ''Numbness''),
       (''tingling'', ''Tingling Sensation''),
       (''muscle_spasms'', ''Muscle Spasms''),
       (''fatigue'', ''Fatigue''),
       (''fever'', ''Fever''),
       (''none'', ''None of These'')],
    q_depends_on = None\<rparr>]"

definition mental_health_flow :: "question list" where
"mental_health_flow = [
  \<lparr>q_id = ''mood_symptoms'',
    q_question = ''What mood-related symptoms are you experiencing?'',
    q_type = ''multiple_choice'',
    q_options =
      [(''sadness'', ''Sadness or Hopelessness''),
       (''anxiety'', ''Anxiety or Worry''),
       (''irritability'', ''Irritability or Anger''),
       (''mood_swings'', ''Mood Swings''),
       (''emotional_numbness'', ''Emotional Numbness''),
       (''none'', ''None of These'')],
    q_depends_on = None\<rparr>,
  \<lparr>q_id = ''physical_symptoms'',
    q_question = ''What physical symptoms are you experiencing?'',
    q_type = ''multiple_choice'',
    q_options =
      [(''sleep_problems'', ''Sleep Problems''),
       (''appetite_changes'', ''Appetite Changes''),
       (''fatigue'', ''Fatigue or Low Energy''),
       (''body_aches'', ''Body Aches or Pains''),
       (''digestive_issues'', ''Digestive Issues''),
       (''none'', ''None of These'')],
    q_depends_on = None\<rparr>,
  \<lparr>q_id = ''cognitive_symptoms'',
    q_question = ''What thinking-related symptoms are you experiencing?'',
    q_type = ''multiple_choice'',
    q_options =
      [(''concentration'', ''Concentration Problems''),
       (''memory'', ''Memory Issues''),
       (''indecisiveness'', ''Indecisiveness''),
       (''racing_thoughts'', ''Racing Thoughts''),
       (''negative_thoughts'', ''Negative Thoughts''),
       (''none'', ''None of These'')],
    q_depends_on = None\<rparr>,
  \<lparr>q_id = ''behavioral_symptoms'',
    q_question = ''What behavior changes have you noticed?'',
    q_type = ''multiple_choice'',
    q_options =
      [(''social_withdrawal'', ''Social Withdrawal''),
       (''loss_interest'', ''Loss of Interest in Activities''),
       (''agitation'', ''Agitation or Restlessness''),
       (''procrastination'', ''Procrastination''),
       (''routine_changes'', ''Changes in Routine''),
       (''none'', ''None of These'')],
    q_depends_on = None\<rparr>,
  \<lparr>q_id = ''duration'',
    q_question = ''How long have you been experiencing these symptoms?'',
    q_type = ''single_choice'',
    q_options =
      [(''recent'', ''Recent (less than 2 weeks)''),
       (''chronic'', ''Chronic (more than 2 months)''),
       (''daily'', ''Daily''),
       (''episodic'', ''Comes and Goes''),
       (''constant'', ''Constant''),
       (''none'', ''Not Sure'')],
    q_depends_on = None\<rparr>,
  \<lparr>q_id = ''impact_life'',
    q_question = ''How is this affecting your daily life?'',
    q_type = ''multiple_choice'',
    q_options =
      [(''work_school'', ''Work or School Problems''),
       (''relationships'', ''Relationship Issues''),
       (''self_care'', ''Difficulty with Self-Care''),
       (''daily_tasks'', ''Daily Tasks Challenging''),
       (''none'', ''No Significant Impact'')],
    q_depends_on = None\<rparr>,
  \<lparr>q_id = ''stress_triggers'',
    q_question = ''Are there any specific stressors or triggers?'',
    q_type = ''multiple_choice'',
    q_options =
      [(''work_stress'', ''Work Stress''),
       (''relationship_stress'', ''Relationship Stress''),
       (''financial_stress'', ''Financial Stress''),
       (''health_concerns'', ''Health Concerns''),
       (''life_changes'', ''Major Life Changes''),
       (''none'', ''No Specific Triggers'')],
    q_depends_on = None\<rparr>,
  \<lparr>q_id = ''severe_symptoms'',
    q_question = ''Are you experiencing any of these severe symptoms?'',
    q_type = ''multiple_choice'',
    q_options =
      [(''panic_attacks'', ''Panic Attacks''),
       (''suicidal_thoughts'', ''Suicidal Thoughts''),
       (''self_harm'', ''Self-Harm Thoughts''),
       (''detachment'', ''Feeling Detached from Reality''),
       (''extreme_fear'', ''Extreme Fear''),
       (''none'', ''None of These'')],
    q_depends_on = None\<rparr>]"

definition first_aid_flow :: "question list" where
"first_aid_flow = [
  \<lparr>q_id = ''injury_type'',
    q_question = ''What type of injury or emergency are you dealing with?'',
    q_type = ''single_choice'',
    q_options =
      [(''cuts'', ''Cuts or Scrapes''),
       (''burns'', ''Burns''),
       (''sprains'', ''Sprains or Strains''),
       (''fractures'', ''Possible Fractures''),
       (''bleeding'', ''Bleeding''),
       (''bites'', ''Animal or Insect Bites''),
       (''other'', ''Other Emergency''),
       (''none'', ''Not Sure'')],
    q_depends_on = None\<rparr>,
  \<lparr>q_id = ''bleeding_level'',
    q_question = ''Is there bleeding?'',
    q_type = ''single_choice'',
    q_options =
      [(''minor_bleeding'', ''Minor Bleeding''),
       (''heavy_bleeding'', ''Heavy Bleeding''),
       (''no_bleeding'', ''No Bleeding''),
       (''none'', ''Not Sure'')],
    q_depends_on = None\<rparr>,
  \<lparr>q_id = ''pain_level'',
    q_question = ''How severe is the pain?'',
    q_type = ''single_choice'',
    q_options =
      [(''mild_pain'', ''Mild Pain''),
       (''moderate_pain'', ''Moderate Pain''),
       (''severe_pain'', ''Severe Pain''),
       (''none'', ''No Pain'')],
    q_depends_on = None\<rparr>,
  \<lparr>q_id = ''emergency_signs'',
    q_question = ''Are there any emergency warning signs?'',
    q_type = ''multiple_choice'',
    q_options =
      [(''breathing'', ''Difficulty Breathing''),
       (''unconscious'', ''Unconsciousness''),
       (''allergy'', ''Severe Allergic Reaction''),
       (''chest_pain'', ''Chest Pain''),
       (''head_injury'', ''Head Injury''),
       (''none'', ''None of These'')],
    q_depends_on = None\<rparr>,
  \<lparr>q_id = ''mobility'',
    q_question = ''Can the injured area move normally?'',
    q_type = ''single_choice'',
    q_options =
      [(''full_movement'', ''Full Movement''),
       (''limited_movement'', ''Limited Movement''),
       (''no_movement'', ''Cannot Move''),
       (''none'', ''Not Applicable'')],
    q_depends_on = None\<rparr>]"

definition general_medicine_flow :: "question list" where
"general_medicine_flow = [
  \<lparr>q_id = ''main_symptoms'',
    q_question = ''What are your main symptoms?'',
    q_type = ''multiple_choice'',
    q_options =
      [(''fever'', ''Fever''),
       (''cough'', ''Cough''),
       (''sore_throat'', ''Sore Throat''),
       (''runny_nose'', ''Runny Nose''),
       (''headache'', ''Headache''),
       (''body_aches'', ''Body Aches''),
       (''nausea'', ''Nausea''),
       (''diarrhea'', ''Diarrhea''),
       (''none'', ''None of These'')],
    q_depends_on = None\<rparr>,
  \<lparr>q_id = ''fever_level'',
    q_question = ''Do you have fever?'',
    q_type = ''single_choice'',
    q_options =
      [(''mild_fever'', (''Mild Fever (below 101'' @ [CHR 0xB0] @ ''F)'')),
       (''high_fever'', (''High Fever (above 101'' @ [CHR 0xB0] @ ''F)'')),
       (''chills'', ''Chills without Fever''),
       (''no_fever'', ''No Fever''),
       (''none'', ''Not Sure'')],
    q_depends_on = None\<rparr>,
  \<lparr>q_id = ''respiratory_symptoms'',
    q_question = ''Any breathing or chest symptoms?'',
    q_type = ''multiple_choice'',
    q_options =
      [(''congestion'', ''Nasal Congestion''),
       (''shortness'', ''Shortness of Breath''),
       (''chest_pain'', ''Chest Pain''),
       (''sinus'', ''Sinus Pressure''),
       (''none'', ''None of These'')],
    q_depends_on = None\<rparr>,
  \<lparr>q_id = ''digestive_symptoms'',
    q_question = ''Any digestive symptoms?'',
    q_type = ''multiple_choice'',
    q_options =
      [(''nausea'', ''Nausea''),
       (''vomiting'', ''Vomiting''),
       (''diarrhea'', ''Diarrhea''),
       (''abdominal_pain'', ''Abdominal Pain''),
       (''loss_appetite'', ''Loss of Appetite''),
       (''none'', ''None of These'')],
    q_depends_on = None\<rparr>,
  \<lparr>q_id = ''duration'',
    q_question = ''How long have you had these symptoms?'',
    q_type = ''single_choice'',
    q_options =
      [(''recent'', ''Recent (1-3 days)''),
       (''lasting'', ''Lasting (4-7 days)''),
       (''chronic'', ''Chronic (over 1 week)''),
       (''recurring'', ''Comes and Goes''),
       (''none'', ''Not Sure'')],
    q_depends_on = None\<rparr>,
  \<lparr>q_id = ''severity'',
    q_question = ''How severe are your symptoms?'',
    q_type = ''single_choice'',
    q_options =
      [(''mild'', ''Mild (can do daily activities)''),
       (''moderate'', ''Moderate (affects daily activities)''),
       (''severe'', ''Severe (cannot do daily activities)''),
       (''none'', ''Not Sure'')],
    q_depends_on = None\<rparr>]"

definition conversation_flows :: "(string \<times> question list) list" where
"conversation_flows = [
  (''gastrointestinal'', gastrointestinal_flow),
  (''dermatology'', dermatology_flow),
  (''musculoskeletal'', musculoskeletal_flow),
  (''mental_health'', mental_health_flow),
  (''first_aid'', first_aid_flow),
  (''general_medicine'', general_medicine_flow)]"


text \<open>
  The inner loop of \<^verbatim>\<open>get_next_question\<close> over \<^verbatim>\<open>question['depends_on'].items()\<close>:
  the first pair with \<^verbatim>\<open>current_answers.get(dep_key) != dep_value\<close> ends it with
  \<^verbatim>\<open>dependency_met = False\<close>. The required value is a string, so a list answer
  is never equal to it.
\<close>

fun dependency_met :: "(string \<times> string) list \<Rightarrow> answers \<Rightarrow> bool" where
  "dependency_met [] current_answers = True"
| "dependency_met ((dep_key, dep_value) # deps) current_answers =
     (if map_of current_answers dep_key \<noteq> Some (Single dep_value) then False
      else dependency_met deps current_answers)"

text \<open>The outer loop \<^verbatim>\<open>for question in flow\<close>, with its two \<^verbatim>\<open>continue\<close>s.\<close>

fun scan_flow :: "question list \<Rightarrow> answers \<Rightarrow> question option" where
  "scan_flow [] current_answers = None"
| "scan_flow (question # flow) current_answers =
     (if map_of current_answers (q_id question) \<noteq> None then scan_flow flow current_answers
      else
        case q_depends_on question of
          Some deps \<Rightarrow>
            if \<not> dependency_met deps current_answers then scan_flow flow current_answers
            else Some question
        | None \<Rightarrow> Some question)"

text \<open>
  \<^verbatim>\<open>get_next_question(department, current_answers)\<close>; the first argument is
  \<^verbatim>\<open>self.conversation_flows\<close>. \<open>None\<close> is Python's \<^verbatim>\<open>None\<close>.
\<close>

definition get_next_question ::
    "(string \<times> question list) list \<Rightarrow> string \<Rightarrow> answers \<Rightarrow> question option" where
  "get_next_question flows department current_answers =
     (case map_of flows department of
        None \<Rightarrow> None
      | Some flow \<Rightarrow> scan_flow flow current_answers)"

section \<open>Answers to symptoms\<close>

text \<open>The table \<^verbatim>\<open>symptom_mapping\<close> of \<^verbatim>\<open>map_answers_to_symptoms\<close>.\<close>

definition gastrointestinal_symptoms :: "(string \<times> string) list" where
"gastrointestinal_symptoms = [
  (''upper_abdomen'', ''SYP_001''), (''lower_abdomen'', ''SYP_007''), (''right_side'', ''SYP_008''),
  (''left_side'', ''SYP_009''), (''whole_abdomen'', ''SYP_010''), (''after_meals'', ''SYP_001''),
  (''empty_stomach'', ''SYP_004''), (''constant'', ''SYP_005''), (''night_time'', ''SYP_006''),
  (''burning'', ''SYP_011''), (''cramping'', ''SYP_007''), (''sharp'', ''SYP_008''),
  (''dull'', ''SYP_005''), (''nausea'', ''SYP_014''), (''vomiting'', ''SYP_014''),
  (''bloating'', ''SYP_025''), (''heartburn'', ''SYP_011''), (''belching'', ''SYP_026''),
  (''loss_of_appetite'', ''SYP_027''), (''constipation'', ''SYP_018''), (''diarrhea'', ''SYP_019''),
  (''alternating'', ''SYP_020''), (''bloody_stools'', ''SYP_021''), (''mucus_stools'', ''SYP_022''),
  (''straining'', ''SYP_023''), (''urgency'', ''SYP_024''), (''fever'', ''SYP_028''),
  (''jaundice'', ''SYP_029''), (''painful_bowel_movement'', ''SYP_030'')]"

definition dermatology_symptoms :: "(string \<times> string) list" where
"dermatology_symptoms = [
  (''rash_bumps'', ''DER_001''), (''dry_patches'', ''DER_004''), (''oily_skin'', ''DER_005''),
  (''color_changes'', ''DER_006''), (''blisters'', ''DER_003''), (''face'', ''DER_014''),
  (''scalp'', ''DER_015''), (''arms'', ''DER_016''), (''legs'', ''DER_017''),
  (''chest_back'', ''DER_018''), (''all_over_body'', ''DER_019''), (''itchy'', ''DER_002''),
  (''burning'', ''DER_010''), (''painful'', ''DER_011''), (''tender'', ''DER_012''),
  (''no_sensation'', ''DER_013''), (''mild'', ''DER_020''), (''moderate'', ''DER_021''),
  (''severe'', ''DER_022''), (''recent'', ''DER_024''), (''chronic'', ''DER_025''),
  (''recurring'', ''DER_026''), (''food'', ''DER_027''), (''weather'', ''DER_028''),
  (''cosmetics'', ''DER_029''), (''stress'', ''DER_030''), (''medications'', ''DER_031''),
  (''swelling'', ''DER_032''), (''pus'', ''DER_033''), (''hair_loss'', ''DER_034''),
  (''nail_changes'', ''DER_035''), (''fever'', ''DER_036'')]"

definition musculoskeletal_symptoms :: "(string \<times> string) list" where
"musculoskeletal_symptoms = [
  (''neck'', ''MSK_001''), (''shoulder'', ''MSK_002''), (''upper_back'', ''MSK_003''),
  (''lower_back'', ''MSK_004''), (''hip'', ''MSK_005''), (''knee'', ''MSK_006''),
  (''elbow'', ''MSK_007''), (''wrist'', ''MSK_008''), (''ankle'', ''MSK_009''),
  (''multiple_joints'', ''MSK_010''), (''sharp_shooting'', ''MSK_011''), (''dull_ache'', ''MSK_012''),
  (''burning'', ''MSK_013''), (''throbbing'', ''MSK_014''), (''stabbing'', ''MSK_015''),
  (''morning'', ''MSK_016''), (''activity'', ''MSK_017''), (''rest'', ''MSK_018''),
  (''night'', ''MSK_019''), (''constant'', ''MSK_020''), (''difficulty_moving'', ''MSK_021''),
  (''stiffness'', ''MSK_022''), (''limited_range'', ''MSK_023''), (''weakness'', ''MSK_024''),
  (''giving_way'', ''MSK_025''), (''swelling'', ''MSK_026''), (''redness'', ''MSK_027''),
  (''warmth'', ''MSK_028''), (''tenderness'', ''MSK_029''), (''recent_injury'', ''MSK_030''),
  (''overuse'', ''MSK_031''), (''sports'', ''MSK_032''), (''fall'', ''MSK_033''),
  (''acute'', ''MSK_034''), (''subacute'', ''MSK_035''), (''chronic'', ''MSK_036''),
  (''recurring'', ''MSK_037''), (''numbness'', ''MSK_038''), (''tingling'', ''MSK_039''),
  (''muscle_spasms'', ''MSK_040''), (''fatigue'', ''MSK_041''), (''fever'', ''MSK_042'')]"

definition mental_health_symptoms :: "(string \<times> string) list" where
"mental_health_symptoms = [
  (''sadness'', ''MH_001''), (''anxiety'', ''MH_002''), (''irritability'', ''MH_003''),
  (''mood_swings'', ''MH_004''), (''emotional_numbness'', ''MH_005''), (''sleep_problems'', ''MH_006''),
  (''appetite_changes'', ''MH_007''), (''fatigue'', ''MH_008''), (''body_aches'', ''MH_009''),
  (''digestive_issues'', ''MH_010''), (''concentration'', ''MH_011''), (''memory'', ''MH_012''),
  (''indecisiveness'', ''MH_013''), (''racing_thoughts'', ''MH_014''), (''negative_thoughts'', ''MH_015''),
  (''social_withdrawal'', ''MH_016''), (''loss_interest'', ''MH_017''), (''agitation'', ''MH_018''),
  (''procrastination'', ''MH_019''), (''routine_changes'', ''MH_020''), (''recent'', ''MH_021''),
  (''chronic'', ''MH_022''), (''daily'', ''MH_023''), (''episodic'', ''MH_024''),
  (''constant'', ''MH_025''), (''work_school'', ''MH_026''), (''relationships'', ''MH_027''),
  (''self_care'', ''MH_028''), (''daily_tasks'', ''MH_029''), (''work_stress'', ''MH_030''),
  (''relationship_stress'', ''MH_031''), (''financial_stress'', ''MH_032''), (''health_concerns'', ''MH_033''),
  (''life_changes'', ''MH_034''), (''panic_attacks'', ''MH_035''), (''suicidal_thoughts'', ''MH_036''),
  (''self_harm'', ''MH_037''), (''detachment'', ''MH_038''), (''extreme_fear'', ''MH_039'')]"

definition first_aid_symptoms :: "(string \<times> string) list" where
"first_aid_symptoms = [
  (''cuts'', ''FA_001''), (''burns'', ''FA_002''), (''sprains'', ''FA_004''),
  (''fractures'', ''FA_005''), (''bleeding'', ''FA_009''), (''bites'', ''FA_007''),
  (''minor_bleeding'', ''FA_009''), (''heavy_bleeding'', ''FA_010''), (''no_bleeding'', ''FA_011''),
  (''mild_pain'', ''FA_012''), (''moderate_pain'', ''FA_013''), (''severe_pain'', ''FA_014''),
  (''breathing'', ''FA_024''), (''unconscious'', ''FA_025''), (''allergy'', ''FA_026''),
  (''chest_pain'', ''FA_027''), (''head_injury'', ''FA_028''), (''full_movement'', ''FA_018''),
  (''limited_movement'', ''FA_019''), (''no_movement'', ''FA_020'')]"

definition general_medicine_symptoms :: "(string \<times> string) list" where
"general_medicine_symptoms = [
  (''fever'', ''GM_001''), (''cough'', ''GM_005''), (''sore_throat'', ''GM_006''),
  (''runny_nose'', ''GM_007''), (''headache'', ''GM_010''), (''body_aches'', ''GM_019''),
  (''nausea'', ''GM_014''), (''diarrhea'', ''GM_016''), (''mild_fever'', ''GM_001''),
  (''high_fever'', ''GM_002''), (''chills'', ''GM_003''), (''no_fever'', ''GM_001''),
  (''congestion'', ''GM_008''), (''shortness'', ''GM_009''), (''chest_pain'', ''GM_031''),
  (''sinus'', ''GM_012''), (''vomiting'', ''GM_015''), (''abdominal_pain'', ''GM_017''),
  (''loss_appetite'', ''GM_018''), (''recent'', ''GM_023''), (''lasting'', ''GM_024''),
  (''chronic'', ''GM_025''), (''recurring'', ''GM_026''), (''mild'', ''GM_027''),
  (''moderate'', ''GM_028''), (''severe'', ''GM_029'')]"

definition symptom_mapping :: "(string \<times> (string \<times> string) list) list" where
"symptom_mapping = [
  (''gastrointestinal'', gastrointestinal_symptoms),
  (''dermatology'', dermatology_symptoms),
  (''musculoskeletal'', musculoskeletal_symptoms),
  (''mental_health'', mental_health_symptoms),
  (''first_aid'', first_aid_symptoms),
  (''general_medicine'', general_medicine_symptoms)]"

text \<open>
  The body shared by both branches of the loop: a token that is truthy (not empty),
  not \<^verbatim>\<open>'none'\<close> and a key of the department's mapping adds its symptom id, unless
  the id is in the list already.
\<close>

definition add_symptom :: "(string \<times> string) list \<Rightarrow> string \<Rightarrow> string list \<Rightarrow> string list" where
  "add_symptom dept_mapping item symptoms =
     (if item \<noteq> [] \<and> item \<noteq> ''none'' then
        (case map_of dept_mapping item of
           None \<Rightarrow> symptoms
         | Some symptom_id \<Rightarrow>
             if symptom_id \<notin> set symptoms then symptoms @ [symptom_id] else symptoms)
      else symptoms)"

text \<open>\<^verbatim>\<open>for item in answer_value\<close>, for an answer stored as a list.\<close>

fun add_items :: "(string \<times> string) list \<Rightarrow> string list \<Rightarrow> string list \<Rightarrow> string list" where
  "add_items dept_mapping [] symptoms = symptoms"
| "add_items dept_mapping (item # items) symptoms =
     add_items dept_mapping items (add_symptom dept_mapping item symptoms)"

text \<open>\<^verbatim>\<open>for answer_key, answer_value in answers.items()\<close>.\<close>

fun add_answers :: "(string \<times> string) list \<Rightarrow> answers \<Rightarrow> string list \<Rightarrow> string list" where
  "add_answers dept_mapping [] symptoms = symptoms"
| "add_answers dept_mapping ((answer_key, Multiple items) # answers) symptoms =
     add_answers dept_mapping answers (add_items dept_mapping items symptoms)"
| "add_answers dept_mapping ((answer_key, Single answer_value) # answers) symptoms =
     add_answers dept_mapping answers (add_symptom dept_mapping answer_value symptoms)"

definition map_answers_to_symptoms :: "string \<Rightarrow> answers \<Rightarrow> string list" where
  "map_answers_to_symptoms department answers =
     (case map_of symptom_mapping department of
        None \<Rightarrow> []
      | Some dept_mapping \<Rightarrow> add_answers dept_mapping answers [])"

text \<open>
  The answers with every \<^verbatim>\<open>'none'\<close> token taken out: a single answer \<^verbatim>\<open>'none'\<close> is
  dropped with its question, a list answer loses its \<^verbatim>\<open>'none'\<close> members.
\<close>

fun without_none :: "answers \<Rightarrow> answers" where
  "without_none [] = []"
| "without_none ((answer_key, Single answer_value) # answers) =
     (if answer_value = ''none'' then without_none answers
      else (answer_key, Single answer_value) # without_none answers)"
| "without_none ((answer_key, Multiple items) # answers) =
     (answer_key, Multiple (removeAll ''none'' items)) # without_none answers"

section \<open>Matching conditions\<close>

text \<open>
  \<^verbatim>\<open>self.departments_data\<close> maps a department to the content of its JSON file, or to
  the empty dict when the file is missing or unreadable. A department's data may
  hold a list \<^verbatim>\<open>diseases\<close> and a dict \<^verbatim>\<open>treatments\<close> from disease id to the
  treatments of that disease; a treatment is a text or a list of texts per treatment
  type. A disease has an \<^verbatim>\<open>id\<close>, a \<^verbatim>\<open>name\<close> and, read with
  \<^verbatim>\<open>disease.get('symptoms', [])\<close>, a list of symptom ids.
\<close>

datatype treatment_text = Text string | Items "string list"

type_synonym treatment_payload = "(string \<times> treatment_text) list"

record disease =
  d_id :: string
  d_name :: string
  d_symptoms :: "string list option"

record dept_data =
  dd_diseases :: "disease list option"
  dd_treatments :: "(string \<times> treatment_payload) list option"

text \<open>
  The dict \<^verbatim>\<open>condition_info\<close>. \<^verbatim>\<open>match_percentage\<close> is a Python float; it is kept
  as the exact quotient. \<^verbatim>\<open>matching_symptoms\<close> is \<^verbatim>\<open>list(...)\<close> of a set, in an
  order Python does not fix; it is kept as the set.
\<close>

record condition_info =
  disease_id :: string
  disease_name :: string
  match_score :: nat
  match_percentage :: rat
  matching_symptoms :: "string set"
  total_disease_symptoms :: nat
  symptoms :: "string list"
  treatments :: treatment_payload

definition disease_symptoms :: "disease \<Rightarrow> string list" where
  "disease_symptoms d = (case d_symptoms d of None \<Rightarrow> [] | Some s \<Rightarrow> s)"

text \<open>\<^verbatim>\<open>(match_count / total_possible) * 100 if total_possible > 0 else 0\<close>\<close>

definition percentage :: "nat \<Rightarrow> nat \<Rightarrow> rat" where
  "percentage match_count total_possible =
     (if total_possible > 0 then (of_nat match_count / of_nat total_possible) * 100 else 0)"

text \<open>The body of the loop over the diseases, up to the threshold test.\<close>

definition make_condition_info ::
    "(string \<times> treatment_payload) list \<Rightarrow> string list \<Rightarrow> disease \<Rightarrow> condition_info" where
  "make_condition_info dept_treatments syms d =
     (let matching = set syms \<inter> set (disease_symptoms d);
          match_count = card matching;
          total_possible = length (disease_symptoms d)
      in \<lparr>disease_id = d_id d,
          disease_name = d_name d,
          match_score = match_count,
          match_percentage = percentage match_count total_possible,
          matching_symptoms = matching,
          total_disease_symptoms = total_possible,
          symptoms = disease_symptoms d,
          treatments = (case map_of dept_treatments (d_id d) of None \<Rightarrow> [] | Some t \<Rightarrow> t)\<rparr>)"

text \<open>
  \<^verbatim>\<open>if match_count >= 2 or (match_count >= 1 and match_percentage >= 30)\<close>
\<close>

definition threshold_met :: "condition_info \<Rightarrow> bool" where
  "threshold_met info =
     (match_score info \<ge> 2 \<or> (match_score info \<ge> 1 \<and> match_percentage info \<ge> 30))"

text \<open>\<^verbatim>\<open>for disease in dept_data['diseases']\<close>, appending to \<^verbatim>\<open>matched_conditions\<close>.\<close>

fun scan_diseases ::
    "(string \<times> treatment_payload) list \<Rightarrow> string list \<Rightarrow> disease list \<Rightarrow>
     condition_info list \<Rightarrow> condition_info list" where
  "scan_diseases dept_treatments syms [] matched_conditions = matched_conditions"
| "scan_diseases dept_treatments syms (d # ds) matched_conditions =
     scan_diseases dept_treatments syms ds
       (let info = make_condition_info dept_treatments syms d
        in if threshold_met info then matched_conditions @ [info] else matched_conditions)"

text \<open>
  \<^verbatim>\<open>list.sort(key=..., reverse=True)\<close>: CPython reverses the list, sorts it with its
  stable sort in ascending order of the key, and reverses the result. Tuples compare
  lexicographically.
\<close>

definition sort_reverse :: "('a \<Rightarrow> 'k::linorder) \<Rightarrow> 'a list \<Rightarrow> 'a list" where
  "sort_reverse key xs = rev (sort_key key (rev xs))"

definition sort_key_of :: "condition_info \<Rightarrow> nat \<times> rat" where
  "sort_key_of x = (match_score x, match_percentage x)"

text \<open>
  \<^verbatim>\<open>find_condition_by_symptoms(department, symptoms)\<close>; the first argument is
  \<^verbatim>\<open>self.departments_data\<close>. \<open>None\<close> is Python's \<^verbatim>\<open>None\<close>.
\<close>

definition find_condition_by_symptoms ::
    "(string \<times> dept_data) list \<Rightarrow> string \<Rightarrow> string list \<Rightarrow> condition_info list option" where
  "find_condition_by_symptoms departments_data department syms =
     (case map_of departments_data department of
        None \<Rightarrow> None
      | Some data \<Rightarrow>
          Some (sort_reverse sort_key_of
            (case dd_diseases data of
               None \<Rightarrow> []
             | Some ds \<Rightarrow>
                 (case dd_treatments data of
                    None \<Rightarrow> []
                  | Some dept_treatments \<Rightarrow> scan_diseases dept_treatments syms ds []))))"

section \<open>Sample data\<close>

text \<open>
  Providers used in the examples: one whose first call raises and whose later calls
  answer, and one that always answers with the text itself.
\<close>

definition recovering_provider :: provider where
  "recovering_provider n lang text = (if n = 0 then ProviderError else Translated ''fiebre'')"





text \<open>
  The JSON files under \<^verbatim>\<open>data/\<close> are not part of the sources. The examples use a
  small catalog of the same shape: every department of \<^verbatim>\<open>DEPARTMENTS\<close> is a key, as
  \<^verbatim>\<open>load_all_departments\<close> leaves it, some with the empty dict of a missing file,
  one with diseases but no treatment table, one with both.
\<close>

definition common_cold :: disease where
  "common_cold = \<lparr>d_id = ''GM_DIS_01'', d_name = ''Common Cold'',
     d_symptoms = Some [''GM_005'', ''GM_006'', ''GM_007'']\<rparr>"

definition influenza :: disease where
  "influenza = \<lparr>d_id = ''GM_DIS_02'', d_name = ''Influenza'',
     d_symptoms = Some [''GM_002'', ''GM_003'', ''GM_005'', ''GM_010'', ''GM_019'']\<rparr>"

definition sinusitis :: disease where
  "sinusitis = \<lparr>d_id = ''GM_DIS_03'', d_name = ''Sinusitis'',
     d_symptoms = Some [''GM_007'', ''GM_008'', ''GM_012'']\<rparr>"

definition eczema :: disease where
  "eczema = \<lparr>d_id = ''DER_DIS_01'', d_name = ''Eczema'',
     d_symptoms = Some [''DER_002'', ''DER_004'', ''DER_021'']\<rparr>"

definition general_medicine_treatments :: "(string \<times> treatment_payload) list" where
  "general_medicine_treatments =
     [(''GM_DIS_01'', [(''allopathy'', Items [''Paracetamol'', ''Antihistamine'']),
                       (''home_remedy'', Text ''Rest and warm fluids'')]),
      (''GM_DIS_02'', [(''allopathy'', Text ''please consult doctor'')])]"

definition sample_departments_data :: "(string \<times> dept_data) list" where
  "sample_departments_data =
     [(''gastrointestinal'', \<lparr>dd_diseases = None, dd_treatments = None\<rparr>),
      (''dermatology'', \<lparr>dd_diseases = Some [eczema], dd_treatments = None\<rparr>),
      (''first_aid'', \<lparr>dd_diseases = None, dd_treatments = None\<rparr>),
      (''general_medicine'',
         \<lparr>dd_diseases = Some [common_cold, influenza, sinusitis],
          dd_treatments = Some general_medicine_treatments\<rparr>),
      (''mental_health'', \<lparr>dd_diseases = None, dd_treatments = None\<rparr>),
      (''musculoskeletal'', \<lparr>dd_diseases = None, dd_treatments = Some []\<rparr>)]"

section \<open>The translation layer\<close>

text \<open>
  C10. For every session language, \<^verbatim>\<open>translate_text\<close> applied to an empty text returns
  that text at once: whatever the cache holds (also an entry for the empty text) and
  whatever the provider would do, the result is the empty text and the state, cache and
  provider log, is unchanged.
\<close>

theorem translate_text_empty:
  "translate_text prov language [] st = ([], st)"
  by (simp add: translate_text_def)

subsection \<open>Cache hits and misses\<close>

lemma map_of_dict_set: "map_of (dict_set d k v) = (map_of d)(k \<mapsto> v)"
  by (induction d) auto

lemma dict_set_new: "map_of d k = None \<Longrightarrow> dict_set d k v = d @ [(k, v)]"
  by (induction d) (auto split: if_splits)

text \<open>
  A miss dispatches one call. A translation is stored and returned. A timeout returns
  the text and stores nothing. An exception of the provider returns the text too, but
  through the worker's ordinary result, so the text is stored under the key.
\<close>

lemma translate_text_miss:
  assumes "text \<noteq> []" and "lang \<noteq> ''en''" and "map_of (cache st) (text, lang) = None"
  shows "translate_text prov (Some lang) text st =
    (case prov (length (calls st)) lang text of
       Translated t \<Rightarrow>
         (t, st\<lparr>cache := cache st @ [((text, lang), t)], calls := calls st @ [(text, lang)]\<rparr>)
     | ProviderError \<Rightarrow>
         (text, st\<lparr>cache := cache st @ [((text, lang), text)], calls := calls st @ [(text, lang)]\<rparr>)
     | NoAnswerInTime \<Rightarrow> (text, st\<lparr>calls := calls st @ [(text, lang)]\<rparr>))"
  using assms
  by (simp add: translate_text_def do_translate_def Let_def dict_set_new
      split: provider_result.split)

lemma translate_text_hit:
  assumes "text \<noteq> []" and "lang \<noteq> ''en''" and "map_of (cache st) (text, lang) = Some t"
  shows "translate_text prov (Some lang) text st = (t, st)"
  using assms by (simp add: translate_text_def)

text \<open>
  After a timeout the key is still absent, so the next call for it is a miss again and
  goes to the provider.
\<close>

lemma translate_text_timeout_retries:
  assumes "text \<noteq> []" and "lang \<noteq> ''en''" and "map_of (cache st) (text, lang) = None"
    and "prov (length (calls st)) lang text = NoAnswerInTime"
  shows "fst (translate_text prov (Some lang) text st) = text"
    and "cache (snd (translate_text prov (Some lang) text st)) = cache st"
    and "calls (snd (translate_text prov (Some lang) text
           (snd (translate_text prov (Some lang) text st)))) =
         calls st @ [(text, lang), (text, lang)]"
proof -
  let ?st1 = "st\<lparr>calls := calls st @ [(text, lang)]\<rparr>"
  have first: "translate_text prov (Some lang) text st = (text, ?st1)"
    using translate_text_miss [OF assms(1-3), of prov] assms(4) by simp
  show "fst (translate_text prov (Some lang) text st) = text"
    and "cache (snd (translate_text prov (Some lang) text st)) = cache st"
    by (simp_all add: first)
  have "map_of (cache ?st1) (text, lang) = None"
    using assms(3) by simp
  from translate_text_miss [OF assms(1,2) this, of prov]
  show "calls (snd (translate_text prov (Some lang) text
           (snd (translate_text prov (Some lang) text st)))) =
         calls st @ [(text, lang), (text, lang)]"
    by (simp add: first split: provider_result.split)
qed

text \<open>
  C2. The claim: when the provider fails or times out, \<^verbatim>\<open>translate_text\<close> returns the
  text and stores no entry for the key, so that the next call for the key goes to the
  provider again. That holds for a timeout. When the provider raises, the worker
  \<^verbatim>\<open>do_translate\<close> catches the exception and returns the text as its result, which
  \<^verbatim>\<open>translate_text\<close> then stores: with a provider that raises on its first call
  and would answer afterwards, the first call for \<^verbatim>\<open>('fever', 'es')\<close> returns
  \<^verbatim>\<open>'fever'\<close> and leaves it in the cache, and the second call returns the cached
  \<^verbatim>\<open>'fever'\<close> without a second call to the provider.
\<close>

theorem provider_error_is_cached:
  "translate_text recovering_provider (Some ''es'') ''fever'' \<lparr>cache = [], calls = []\<rparr> =
     (''fever'', \<lparr>cache = [((''fever'', ''es''), ''fever'')], calls = [(''fever'', ''es'')]\<rparr>) \<and>
   translate_text recovering_provider (Some ''es'') ''fever''
       \<lparr>cache = [((''fever'', ''es''), ''fever'')], calls = [(''fever'', ''es'')]\<rparr> =
     (''fever'', \<lparr>cache = [((''fever'', ''es''), ''fever'')], calls = [(''fever'', ''es'')]\<rparr>)"
  by (simp add: translate_text_def do_translate_def recovering_provider_def Let_def)

subsection \<open>Eviction\<close>










section \<open>The question flow: theorems\<close>

lemma dependency_met_iff:
  "dependency_met deps current_answers \<longleftrightarrow>
     (\<forall>(dep_key, dep_value) \<in> set deps. map_of current_answers dep_key = Some (Single dep_value))"
  by (induction deps current_answers rule: dependency_met.induct) auto

lemma scan_flow_Some:
  assumes "scan_flow flow current_answers = Some question"
  shows "question \<in> set flow \<and> map_of current_answers (q_id question) = None \<and>
    (\<forall>deps. q_depends_on question = Some deps \<longrightarrow> dependency_met deps current_answers)"
  using assms
  by (induction flow) (auto split: if_splits option.splits)

lemma scan_flow_append:
  "scan_flow (earlier @ later) current_answers =
     (case scan_flow earlier current_answers of
        Some q \<Rightarrow> Some q
      | None \<Rightarrow> scan_flow later current_answers)"
  by (induction earlier) (auto split: option.splits)

lemma scan_flow_skip:
  assumes "q_depends_on question = Some deps" and "\<not> dependency_met deps current_answers"
  shows "scan_flow (question # later) current_answers = scan_flow later current_answers"
  using assms by simp

text \<open>
  C5. A question that carries \<^verbatim>\<open>depends_on\<close> is returned by \<^verbatim>\<open>get_next_question\<close>
  only if every pair of the dict is matched exactly: the recorded answer of the
  question id is the required value, a single token. A question with a dependency
  whose question id is unanswered, or answered differently, is passed over, and the
  scan goes on with the questions after it: the result is that of the questions before
  it or, when none of them is returned, that of the questions after it.
\<close>

theorem get_next_question_dependencies:
  "(get_next_question flows department current_answers = Some question \<and>
      q_depends_on question = Some deps \<longrightarrow>
      (\<forall>(dep_key, dep_value) \<in> set deps.
         map_of current_answers dep_key = Some (Single dep_value))) \<and>
   (map_of flows department = Some (earlier @ skipped # later) \<and>
      q_depends_on skipped = Some deps' \<and>
      (\<exists>(dep_key, dep_value) \<in> set deps'.
         map_of current_answers dep_key \<noteq> Some (Single dep_value)) \<longrightarrow>
      get_next_question flows department current_answers =
        (case scan_flow earlier current_answers of
           Some q \<Rightarrow> Some q
         | None \<Rightarrow> scan_flow later current_answers))"
proof (intro conjI impI)
  assume "get_next_question flows department current_answers = Some question \<and>
      q_depends_on question = Some deps"
  then obtain flow where "scan_flow flow current_answers = Some question"
    and "q_depends_on question = Some deps"
    by (auto simp: get_next_question_def split: option.splits)
  then have "dependency_met deps current_answers"
    using scan_flow_Some by blast
  then show "\<forall>(dep_key, dep_value) \<in> set deps.
      map_of current_answers dep_key = Some (Single dep_value)"
    by (simp add: dependency_met_iff)
next
  assume a: "map_of flows department = Some (earlier @ skipped # later) \<and>
      q_depends_on skipped = Some deps' \<and>
      (\<exists>(dep_key, dep_value) \<in> set deps'.
         map_of current_answers dep_key \<noteq> Some (Single dep_value))"
  then have "\<not> dependency_met deps' current_answers"
    by (auto simp: dependency_met_iff)
  with a have "scan_flow (skipped # later) current_answers = scan_flow later current_answers"
    using scan_flow_skip by blast
  with a show "get_next_question flows department current_answers =
      (case scan_flow earlier current_answers of
         Some q \<Rightarrow> Some q
       | None \<Rightarrow> scan_flow later current_answers)"
    by (simp add: get_next_question_def scan_flow_append del: scan_flow.simps
        split: option.split)
qed

text \<open>
  The gastrointestinal flow: \<^verbatim>\<open>upper_abdomen_timing\<close> depends on the answer
  \<^verbatim>\<open>upper_abdomen\<close> to \<^verbatim>\<open>symptom_location\<close>.
\<close>

lemma next_after_upper_abdomen:
  "get_next_question conversation_flows ''gastrointestinal''
      [(''symptom_location'', Single ''upper_abdomen'')] = Some (gastrointestinal_flow ! 1)"
  by (simp add: get_next_question_def conversation_flows_def gastrointestinal_flow_def)

lemma next_after_lower_abdomen:
  "get_next_question conversation_flows ''gastrointestinal''
      [(''symptom_location'', Single ''lower_abdomen'')] = Some (gastrointestinal_flow ! 2)"
  by (simp add: get_next_question_def conversation_flows_def gastrointestinal_flow_def)

lemma gastrointestinal_flow_split:
  "map_of conversation_flows ''gastrointestinal'' =
     Some (take 1 gastrointestinal_flow @ gastrointestinal_flow ! 1 # drop 2 gastrointestinal_flow)"
  by (simp add: conversation_flows_def gastrointestinal_flow_def)

lemma upper_abdomen_timing:
  "q_id (gastrointestinal_flow ! 1) = ''upper_abdomen_timing''"
  "q_depends_on (gastrointestinal_flow ! 1) = Some [(''symptom_location'', ''upper_abdomen'')]"
  "q_id (gastrointestinal_flow ! 2) = ''pain_character''"
  by (simp_all add: gastrointestinal_flow_def)

text \<open>
  C5 on the gastrointestinal flow: after \<^verbatim>\<open>upper_abdomen\<close> the dependent question is
  returned and its dependency holds; after \<^verbatim>\<open>lower_abdomen\<close> it is passed over and
  the scan returns the question after it, \<^verbatim>\<open>pain_character\<close>.
\<close>

theorem get_next_question_dependencies_witness:
  "get_next_question conversation_flows ''gastrointestinal''
      [(''symptom_location'', Single ''upper_abdomen'')] = Some (gastrointestinal_flow ! 1) \<and>
   q_depends_on (gastrointestinal_flow ! 1) = Some [(''symptom_location'', ''upper_abdomen'')] \<and>
   map_of [(''symptom_location'', Single ''upper_abdomen'')] ''symptom_location'' =
     Some (Single ''upper_abdomen'') \<and>
   map_of [(''symptom_location'', Single ''lower_abdomen'')] ''symptom_location'' \<noteq>
     Some (Single ''upper_abdomen'') \<and>
   get_next_question conversation_flows ''gastrointestinal''
      [(''symptom_location'', Single ''lower_abdomen'')] =
     scan_flow (drop 2 gastrointestinal_flow) [(''symptom_location'', Single ''lower_abdomen'')] \<and>
   get_next_question conversation_flows ''gastrointestinal''
      [(''symptom_location'', Single ''lower_abdomen'')] = Some (gastrointestinal_flow ! 2)"
proof -
  let ?upper = "[(''symptom_location'', Single ''upper_abdomen'')]"
  let ?lower = "[(''symptom_location'', Single ''lower_abdomen'')]"
  have first: "scan_flow (take 1 gastrointestinal_flow) ?lower = None"
    by (simp add: gastrointestinal_flow_def)
  from get_next_question_dependencies [of conversation_flows "''gastrointestinal''" ?upper
      "gastrointestinal_flow ! 1" "[(''symptom_location'', ''upper_abdomen'')]"]
  have "map_of ?upper ''symptom_location'' = Some (Single ''upper_abdomen'')"
    using next_after_upper_abdomen upper_abdomen_timing(2) by simp
  moreover from get_next_question_dependencies [of conversation_flows "''gastrointestinal''"
      ?lower _ _ "take 1 gastrointestinal_flow" "gastrointestinal_flow ! 1"
      "drop 2 gastrointestinal_flow" "[(''symptom_location'', ''upper_abdomen'')]"]
  have "get_next_question conversation_flows ''gastrointestinal'' ?lower =
      scan_flow (drop 2 gastrointestinal_flow) ?lower"
    using gastrointestinal_flow_split upper_abdomen_timing(2) first by simp
  ultimately show ?thesis
    using next_after_upper_abdomen next_after_lower_abdomen upper_abdomen_timing(2) by simp
qed

text \<open>
  C6. For every key \<open>k\<close> of the answers, \<^verbatim>\<open>get_next_question\<close> never returns a
  question whose id is \<open>k\<close>.
\<close>

theorem get_next_question_unanswered:
  assumes "k \<in> fst ` set current_answers"
    and "get_next_question flows department current_answers = Some question"
  shows "q_id question \<noteq> k"
proof -
  from assms(2) obtain flow where "scan_flow flow current_answers = Some question"
    by (auto simp: get_next_question_def split: option.splits)
  then have "map_of current_answers (q_id question) = None"
    using scan_flow_Some by blast
  then have "q_id question \<notin> fst ` set current_answers"
    by (simp add: map_of_eq_None_iff)
  with assms(1) show ?thesis by blast
qed

text \<open>
  C6 on the gastrointestinal flow, with \<^verbatim>\<open>symptom_location\<close> answered.
\<close>

theorem get_next_question_unanswered_witness:
  "''symptom_location'' \<in> fst ` set [(''symptom_location'', Single ''lower_abdomen'')] \<and>
   get_next_question conversation_flows ''gastrointestinal''
      [(''symptom_location'', Single ''lower_abdomen'')] = Some (gastrointestinal_flow ! 2) \<and>
   q_id (gastrointestinal_flow ! 2) \<noteq> ''symptom_location''"
proof -
  have answered: "''symptom_location'' \<in>
      fst ` set [(''symptom_location'', Single ''lower_abdomen'')]"
    by simp
  from get_next_question_unanswered [OF answered next_after_lower_abdomen]
    answered next_after_lower_abdomen
  show ?thesis by simp
qed

section \<open>Answers to symptoms: theorems\<close>

lemma add_symptom_none: "add_symptom dept_mapping ''none'' syms = syms"
  by (simp add: add_symptom_def)

lemma add_items_removeAll_none:
  "add_items dept_mapping (removeAll ''none'' items) syms = add_items dept_mapping items syms"
  by (induction items arbitrary: syms) (auto simp: add_symptom_none)

lemma add_answers_without_none:
  "add_answers dept_mapping (without_none answers) syms = add_answers dept_mapping answers syms"
  by (induction answers arbitrary: syms rule: without_none.induct)
    (simp_all add: add_symptom_none add_items_removeAll_none)

text \<open>
  C9. A token \<^verbatim>\<open>'none'\<close> contributes no symptom id, however many answers carry it and
  whether it is a single answer or a member of a list: the symptoms of the answers are
  the symptoms of the answers with every \<^verbatim>\<open>'none'\<close> taken out. This holds for the
  loop over any department mapping, from any list of symptoms collected so far, and so
  for \<^verbatim>\<open>map_answers_to_symptoms\<close>.
\<close>

theorem none_is_never_a_symptom:
  "add_answers dept_mapping answers syms = add_answers dept_mapping (without_none answers) syms \<and>
   map_answers_to_symptoms department answers =
     map_answers_to_symptoms department (without_none answers)"
  by (simp add: map_answers_to_symptoms_def add_answers_without_none split: option.split)

text \<open>
  An example: \<^verbatim>\<open>'none'\<close> and an unknown token add nothing, and \<^verbatim>\<open>nausea\<close> and
  \<^verbatim>\<open>vomiting\<close> map to the same symptom id, which is added once.
\<close>

lemma map_answers_example:
  "map_answers_to_symptoms ''gastrointestinal''
     [(''symptom_location'', Single ''none''),
      (''digestive_symptoms'', Multiple [''none'', ''nausea'', ''vomiting'', ''unheard_of'']),
      (''systemic_symptoms'', Multiple [''none''])] = [''SYP_014'']"
  by (simp add: map_answers_to_symptoms_def symptom_mapping_def gastrointestinal_symptoms_def
      add_symptom_def)

section \<open>Unknown departments\<close>

text \<open>
  C7, as claimed: for a department that is not in the catalog, \<^verbatim>\<open>get_next_question\<close>
  and \<^verbatim>\<open>map_answers_to_symptoms\<close> signal an error instead of returning a none or
  empty result. Neither function raises: for the department \<^verbatim>\<open>cardiology\<close>, which is
  in neither table, the first returns \<^verbatim>\<open>None\<close> and the second the empty list.
\<close>

theorem unknown_department_no_error:
  "get_next_question conversation_flows ''cardiology'' [] = None \<and>
   map_answers_to_symptoms ''cardiology''
     [(''symptoms'', Multiple [''fever'', ''chest_pain''])] = []"
  by (simp add: get_next_question_def conversation_flows_def map_answers_to_symptoms_def
      symptom_mapping_def)

text \<open>
  C7, amended. For a department that is not a key of the conversation flows,
  \<^verbatim>\<open>get_next_question\<close> returns \<^verbatim>\<open>None\<close>; for a department that is not a key of
  the symptom mapping, \<^verbatim>\<open>map_answers_to_symptoms\<close> returns the empty list. No error
  is signalled.
\<close>

theorem unknown_department_silent:
  "(map_of flows department = None \<longrightarrow>
      get_next_question flows department current_answers = None) \<and>
   (map_of symptom_mapping department = None \<longrightarrow>
      map_answers_to_symptoms department answers = [])"
  by (simp add: get_next_question_def map_answers_to_symptoms_def)

text \<open>The amended C7 at the department \<^verbatim>\<open>neurology\<close>.\<close>

theorem unknown_department_silent_witness:
  "map_of conversation_flows ''neurology'' = None \<and>
   get_next_question conversation_flows ''neurology''
     [(''symptom_location'', Single ''upper_abdomen'')] = None \<and>
   map_of symptom_mapping ''neurology'' = None \<and>
   map_answers_to_symptoms ''neurology'' [(''pain_character'', Single ''burning'')] = []"
proof -
  have flows: "map_of conversation_flows ''neurology'' = None"
    by (simp add: conversation_flows_def)
  have mapping: "map_of symptom_mapping ''neurology'' = None"
    by (simp add: symptom_mapping_def)
  from unknown_department_silent [of conversation_flows "''neurology''"
      "[(''symptom_location'', Single ''upper_abdomen'')]"
      "[(''pain_character'', Single ''burning'')]"] flows mapping
  show ?thesis by simp
qed

section \<open>Matching conditions: theorems\<close>


lemma scan_diseases_eq:
  "scan_diseases ts syms ds acc = acc @ filter threshold_met (map (make_condition_info ts syms) ds)"
  by (induction ds arbitrary: acc) (simp_all add: Let_def)

lemma find_condition_eq:
  assumes "map_of departments_data department = Some data"
    and "dd_diseases data = Some ds" and "dd_treatments data = Some ts"
  shows "find_condition_by_symptoms departments_data department syms =
    Some (sort_reverse sort_key_of (filter threshold_met (map (make_condition_info ts syms) ds)))"
  using assms by (simp add: find_condition_by_symptoms_def scan_diseases_eq)





text \<open>
  C3, as claimed: \<^verbatim>\<open>find_condition_by_symptoms\<close> returns an empty list, not a none
  value, also for an unknown department. For a department that is not a key of
  \<^verbatim>\<open>departments_data\<close> it returns \<^verbatim>\<open>None\<close>.
\<close>

theorem find_condition_unknown_department:
  "find_condition_by_symptoms sample_departments_data ''cardiology'' [''GM_001''] = None"
  by (simp add: find_condition_by_symptoms_def sample_departments_data_def)

text \<open>
  C3, amended. For a department that is not a key of \<^verbatim>\<open>departments_data\<close> the result
  is \<^verbatim>\<open>None\<close>; for a department whose data lacks the list of diseases or the
  treatment table the result is the empty list. No error is raised.
\<close>

theorem find_condition_fail_soft:
  "(map_of departments_data department = None \<longrightarrow>
      find_condition_by_symptoms departments_data department syms = None) \<and>
   (map_of departments_data department = Some data \<and>
      (dd_diseases data = None \<or> dd_treatments data = None) \<longrightarrow>
      find_condition_by_symptoms departments_data department syms = Some [])"
  by (auto simp: find_condition_by_symptoms_def sort_reverse_def split: option.split)

text \<open>
  The amended C3 on the sample data: \<^verbatim>\<open>neurology\<close> is unknown,
  \<^verbatim>\<open>musculoskeletal\<close> has no list of diseases.
\<close>

theorem find_condition_fail_soft_witness:
  "map_of sample_departments_data ''neurology'' = None \<and>
   find_condition_by_symptoms sample_departments_data ''neurology'' [''GM_007''] = None \<and>
   map_of sample_departments_data ''musculoskeletal'' =
     Some \<lparr>dd_diseases = None, dd_treatments = Some []\<rparr> \<and>
   find_condition_by_symptoms sample_departments_data ''musculoskeletal'' [''MSK_001''] = Some []"
  using
    find_condition_fail_soft [where departments_data = sample_departments_data
      and department = "''neurology''" and syms = "[''GM_007'']"]
    find_condition_fail_soft [where departments_data = sample_departments_data
      and department = "''musculoskeletal''" and syms = "[''MSK_001'']"
      and data = "\<lparr>dd_diseases = None, dd_treatments = Some []\<rparr>"]
  by (simp add: sample_departments_data_def)

lemma sorted_sort_reverse:
  "sorted_wrt (\<lambda>a b. f b \<le> f a) (sort_reverse f xs)"
proof -
  have "sorted_wrt (\<lambda>a b. f a \<le> f b) (sort_key f (rev xs))"
    using sorted_sort_key [of f "rev xs"] by (simp add: sorted_map)
  then show ?thesis
    by (simp add: sort_reverse_def sorted_wrt_rev)
qed

lemma sort_reverse_stable:
  "filter (\<lambda>x. f x = k) (sort_reverse f xs) = filter (\<lambda>x. f x = k) xs"
proof -
  have "filter (\<lambda>x. f x = k) (sort_key f (rev xs)) = filter (\<lambda>x. f x = k) (rev xs)"
    by (rule sort_key_stable)
  then have "rev (filter (\<lambda>x. f x = k) (sort_key f (rev xs))) = filter (\<lambda>x. f x = k) xs"
    by (simp add: rev_filter)
  then show ?thesis
    by (simp add: sort_reverse_def rev_filter)
qed

lemma sort_key_of_le:
  "sort_key_of b \<le> sort_key_of a \<longleftrightarrow>
     match_score b < match_score a \<or>
     (match_score b = match_score a \<and> match_percentage b \<le> match_percentage a)"
  by (auto simp: sort_key_of_def less_eq_prod_def)

lemma sort_key_of_eq:
  "sort_key_of x = (ms, mp) \<longleftrightarrow> match_score x = ms \<and> match_percentage x = mp"
  by (simp add: sort_key_of_def)

text \<open>
  C4. The list that \<^verbatim>\<open>find_condition_by_symptoms\<close> returns is in descending order of
  the match score, and of the match percentage among equal scores. The entries with
  the same score and the same percentage are in the order of the diseases in the
  department's list: for every pair of a score and a percentage, the entries of the
  result with that pair are the entries with that pair of the admitted conditions in
  catalog order.
\<close>

theorem find_condition_ranking:
  assumes "find_condition_by_symptoms departments_data department syms = Some result"
  shows "sorted_wrt (\<lambda>a b. match_score b < match_score a \<or>
           (match_score b = match_score a \<and> match_percentage b \<le> match_percentage a)) result \<and>
    (\<forall>data ds ts ms mp.
       map_of departments_data department = Some data \<and>
       dd_diseases data = Some ds \<and> dd_treatments data = Some ts \<longrightarrow>
       filter (\<lambda>x. match_score x = ms \<and> match_percentage x = mp) result =
       filter (\<lambda>x. match_score x = ms \<and> match_percentage x = mp)
         (filter threshold_met (map (make_condition_info ts syms) ds)))"
proof -
  from assms obtain xs where result: "result = sort_reverse sort_key_of xs"
    by (auto simp: find_condition_by_symptoms_def split: option.splits)
  have "sorted_wrt (\<lambda>a b. sort_key_of b \<le> sort_key_of a) result"
    unfolding result by (rule sorted_sort_reverse)
  then have sorted: "sorted_wrt (\<lambda>a b. match_score b < match_score a \<or>
      (match_score b = match_score a \<and> match_percentage b \<le> match_percentage a)) result"
    by (simp only: sort_key_of_le)
  have stable: "filter (\<lambda>x. match_score x = ms \<and> match_percentage x = mp) result =
      filter (\<lambda>x. match_score x = ms \<and> match_percentage x = mp)
        (filter threshold_met (map (make_condition_info ts syms) ds))"
    if "map_of departments_data department = Some data"
      and "dd_diseases data = Some ds" and "dd_treatments data = Some ts"
    for data ds ts ms mp
  proof -
    have "result = sort_reverse sort_key_of
        (filter threshold_met (map (make_condition_info ts syms) ds))"
      using assms find_condition_eq [OF that, of syms] by simp
    then show ?thesis
      using sort_reverse_stable [of sort_key_of "(ms, mp)"
          "filter threshold_met (map (make_condition_info ts syms) ds)"]
      by (simp only: sort_key_of_eq)
  qed
  from sorted stable show ?thesis by blast
qed

text \<open>
  C4 on the sample data: influenza, second in the catalog, matches two symptoms and
  comes first; the common cold and sinusitis tie at one match of three and stay in
  catalog order.
\<close>

theorem find_condition_ranking_witness:
  "find_condition_by_symptoms sample_departments_data ''general_medicine''
       [''GM_007'', ''GM_010'', ''GM_002''] =
     Some [make_condition_info general_medicine_treatments
             [''GM_007'', ''GM_010'', ''GM_002''] influenza,
           make_condition_info general_medicine_treatments
             [''GM_007'', ''GM_010'', ''GM_002''] common_cold,
           make_condition_info general_medicine_treatments
             [''GM_007'', ''GM_010'', ''GM_002''] sinusitis] \<and>
   sorted_wrt (\<lambda>a b. match_score b < match_score a \<or>
           (match_score b = match_score a \<and> match_percentage b \<le> match_percentage a))
     [make_condition_info general_medicine_treatments
             [''GM_007'', ''GM_010'', ''GM_002''] influenza,
           make_condition_info general_medicine_treatments
             [''GM_007'', ''GM_010'', ''GM_002''] common_cold,
           make_condition_info general_medicine_treatments
             [''GM_007'', ''GM_010'', ''GM_002''] sinusitis] \<and>
   filter (\<lambda>x. match_score x = 1 \<and> match_percentage x = 100 / 3)
     [make_condition_info general_medicine_treatments
             [''GM_007'', ''GM_010'', ''GM_002''] influenza,
           make_condition_info general_medicine_treatments
             [''GM_007'', ''GM_010'', ''GM_002''] common_cold,
           make_condition_info general_medicine_treatments
             [''GM_007'', ''GM_010'', ''GM_002''] sinusitis] =
     [make_condition_info general_medicine_treatments
             [''GM_007'', ''GM_010'', ''GM_002''] common_cold,
      make_condition_info general_medicine_treatments
             [''GM_007'', ''GM_010'', ''GM_002''] sinusitis]"
proof -
  let ?syms = "[''GM_007'', ''GM_010'', ''GM_002'']"
  let ?mk = "make_condition_info general_medicine_treatments ?syms"
  have score: "match_score (?mk common_cold) = 1" "match_score (?mk influenza) = 2"
      "match_score (?mk sinusitis) = 1"
    by (simp_all add: make_condition_info_def disease_symptoms_def common_cold_def
        influenza_def sinusitis_def Let_def)
  have perc: "match_percentage (?mk common_cold) = 100 / 3"
      "match_percentage (?mk influenza) = 40" "match_percentage (?mk sinusitis) = 100 / 3"
    by (simp_all add: make_condition_info_def disease_symptoms_def common_cold_def
        influenza_def sinusitis_def percentage_def Let_def)
  have data: "map_of sample_departments_data ''general_medicine'' =
      Some \<lparr>dd_diseases = Some [common_cold, influenza, sinusitis],
            dd_treatments = Some general_medicine_treatments\<rparr>"
    by (simp add: sample_departments_data_def)
  have thr: "threshold_met (?mk common_cold)" "threshold_met (?mk influenza)"
      "threshold_met (?mk sinusitis)"
    by (simp_all add: threshold_met_def score perc)
  have admitted: "filter threshold_met (map ?mk [common_cold, influenza, sinusitis]) =
      [?mk common_cold, ?mk influenza, ?mk sinusitis]"
    by (simp add: thr)
  have found: "find_condition_by_symptoms sample_departments_data ''general_medicine'' ?syms =
      Some [?mk influenza, ?mk common_cold, ?mk sinusitis]"
    by (simp add: find_condition_eq [OF data] thr sort_reverse_def sort_key_of_def
        score perc)
  from find_condition_ranking [OF found]
  have sorted: "sorted_wrt (\<lambda>a b. match_score b < match_score a \<or>
           (match_score b = match_score a \<and> match_percentage b \<le> match_percentage a))
         [?mk influenza, ?mk common_cold, ?mk sinusitis]"
    and stable: "filter (\<lambda>x. match_score x = 1 \<and> match_percentage x = 100 / 3)
         [?mk influenza, ?mk common_cold, ?mk sinusitis] =
       filter (\<lambda>x. match_score x = 1 \<and> match_percentage x = 100 / 3)
         (filter threshold_met (map ?mk [common_cold, influenza, sinusitis]))"
    using data by (simp_all add: thr score perc)
  have "filter (\<lambda>x. match_score x = 1 \<and> match_percentage x = 100 / 3)
         (filter threshold_met (map ?mk [common_cold, influenza, sinusitis])) =
       [?mk common_cold, ?mk sinusitis]"
    by (simp add: thr score perc)
  with found sorted stable show ?thesis by simp
qed

end
